theory Spec2Isabelle
  imports Complex_Main
begin

section \<open>Python strings and lists\<close>

text \<open>
  A Python \<open>str\<close> is modelled as a \<open>string\<close> whose characters are the code points
  below 256. \<open>isspace\<close> is Python's whitespace test on that range: the ASCII
  whitespace \<open>\t \n \v \f \r\<close>, the separators \<open>0x1c .. 0x1f\<close>, the space, and
  the two Latin-1 code points \<open>0x85\<close> and \<open>0xa0\<close>.
\<close>

definition isspace :: "char \<Rightarrow> bool" where
  "isspace c \<longleftrightarrow>
     (let n = (of_char c :: nat)
      in (9 \<le> n \<and> n \<le> 13) \<or> (28 \<le> n \<and> n \<le> 32) \<or> n = 133 \<or> n = 160)"

text \<open>\<open>text.strip()\<close>: leading and trailing whitespace removed.\<close>

definition py_strip :: "string \<Rightarrow> string" where
  "py_strip s = rev (dropWhile isspace (rev (dropWhile isspace s)))"

text \<open>
  \<open>text.split()\<close> with no separator: the maximal runs of non-whitespace characters,
  in order; leading, trailing and repeated whitespace yields no empty word.
\<close>

function py_split :: "string \<Rightarrow> string list" where
  "py_split s =
     (case dropWhile isspace s of
        [] \<Rightarrow> []
      | c # cs \<Rightarrow>
          takeWhile (\<lambda>x. \<not> isspace x) (c # cs)
            # py_split (dropWhile (\<lambda>x. \<not> isspace x) (c # cs)))"
  by pat_completeness auto
termination
proof (relation "measure length")
  show "wf (measure (length :: string \<Rightarrow> nat))"
    by simp
next
  fix s :: string and c :: char and cs :: string
  assume d: "dropWhile isspace s = c # cs"
  have "\<not> isspace c"
    using d hd_dropWhile [of isspace s] by simp
  then have "length (dropWhile (\<lambda>x. \<not> isspace x) (c # cs)) \<le> length cs"
    by (simp add: length_dropWhile_le)
  moreover have "length (c # cs) \<le> length s"
    using d length_dropWhile_le [of isspace s] by simp
  ultimately show "(dropWhile (\<lambda>x. \<not> isspace x) (c # cs), s) \<in> measure length"
    by simp
qed

declare py_split.simps [simp del]

text \<open>\<open>sep.join(parts)\<close>.\<close>

fun py_join :: "string \<Rightarrow> string list \<Rightarrow> string" where
  "py_join sep [] = []"
| "py_join sep [w] = w"
| "py_join sep (w # v # ws) = w @ sep @ py_join sep (v # ws)"

text \<open>
  \<open>xs[a:b]\<close> for integers \<open>a\<close> and \<open>b\<close>: a negative bound counts from the end,
  both bounds are clamped to \<open>0 .. len(xs)\<close>, and the slice is empty when the bounds
  cross.
\<close>

definition py_slice :: "'a list \<Rightarrow> int \<Rightarrow> int \<Rightarrow> 'a list" where
  "py_slice xs a b =
     (let n = int (length xs);
          lo = (if a < 0 then max (a + n) 0 else min a n);
          hi = (if b < 0 then max (b + n) 0 else min b n)
      in take (nat (hi - lo)) (drop (nat lo) xs))"

section \<open>The chunker (ingestion/chunker.py)\<close>

text \<open>
  \<open>TextChunker\<close> holds the two attributes set by its constructor. Python integers
  are unbounded and the constructor accepts any pair, so both are \<open>int\<close>. The
  logger is not modelled: logging changes no value the methods return.
\<close>

datatype error = ConfigurationError

record TextChunker =
  chunk_size :: int
  overlap :: int

text \<open>
  \<open>TextChunker.__init__\<close>: stores both arguments. The body has no check and no
  \<open>raise\<close>, so the result is never \<open>Inl\<close>.
\<close>

definition TextChunker_init :: "int \<Rightarrow> int \<Rightarrow> error + TextChunker" where
  "TextChunker_init cs ov = Inr \<lparr>chunk_size = cs, overlap = ov\<rparr>"

definition estimate_tokens :: "string \<Rightarrow> nat" where
  "estimate_tokens text = length (py_split text)"

text \<open>
  The \<open>while\<close> loop of \<open>chunk_text\<close>, with the loop variables \<open>start_idx\<close> and
  \<open>chunks\<close> as arguments. The loop need not end (a step of zero or less never
  reaches \<open>total_words\<close>), so it is a partial function: \<open>None\<close> is a run that
  does not return.
\<close>

partial_function (option) chunk_loop ::
  "TextChunker \<Rightarrow> string list \<Rightarrow> int \<Rightarrow> string list \<Rightarrow> string list option" where
  "chunk_loop self words start_idx chunks =
     (if start_idx < int (length words) then
        (let end_idx = min (start_idx + chunk_size self) (int (length words));
             chunk_words = py_slice words start_idx end_idx;
             chunks' = chunks @ [py_join '' '' chunk_words];
             start_idx' = start_idx + (chunk_size self - overlap self)
         in if start_idx' \<ge> int (length words) then Some chunks'
            else chunk_loop self words start_idx' chunks')
      else Some chunks)"

declare chunk_loop.simps [code]

definition chunk_text :: "TextChunker \<Rightarrow> string \<Rightarrow> string list option" where
  "chunk_text self text =
     (if text = [] \<or> py_strip text = [] then Some []
      else
        (let words = py_split text;
             total_words = length words
         in if int total_words \<le> chunk_size self then Some [text]
            else chunk_loop self words 0 []))"

text \<open>
  The dictionaries built by \<open>chunk_documents\<close>. The key \<open>'chunk_text'\<close> is the
  field \<open>chunk_text_key\<close>, the method \<open>chunk_text\<close> keeping the name.
\<close>

record chunk_info =
  filename :: string
  chunk_id :: nat
  chunk_text_key :: string
  total_chunks :: nat

text \<open>
  The inner \<open>for idx, chunk_text in enumerate(chunks, start=1)\<close> loop, appending to
  \<open>all_chunks\<close>; \<open>n\<close> is \<open>len(chunks)\<close> of the whole document.
\<close>

fun append_chunks ::
  "string \<Rightarrow> nat \<Rightarrow> (nat \<times> string) list \<Rightarrow> chunk_info list \<Rightarrow> chunk_info list" where
  "append_chunks fname n [] all_chunks = all_chunks"
| "append_chunks fname n ((idx, ct) # rest) all_chunks =
     append_chunks fname n rest
       (all_chunks @
         [\<lparr>filename = fname, chunk_id = idx, chunk_text_key = ct, total_chunks = n\<rparr>])"

text \<open>The outer \<open>for filename, content in documents\<close> loop.\<close>

fun chunk_documents_loop ::
  "TextChunker \<Rightarrow> (string \<times> string) list \<Rightarrow> chunk_info list \<Rightarrow> chunk_info list option" where
  "chunk_documents_loop self [] all_chunks = Some all_chunks"
| "chunk_documents_loop self ((fname, content) # rest) all_chunks =
     (case chunk_text self content of
        None \<Rightarrow> None
      | Some chunks \<Rightarrow>
          chunk_documents_loop self rest
            (append_chunks fname (length chunks) (enumerate 1 chunks) all_chunks))"

definition chunk_documents ::
  "TextChunker \<Rightarrow> (string \<times> string) list \<Rightarrow> chunk_info list option" where
  "chunk_documents self documents = chunk_documents_loop self documents []"

text \<open>
  A word as \<open>split()\<close> produces it: not empty and free of whitespace. It is used
  to state properties only.
\<close>

definition is_word :: "string \<Rightarrow> bool" where
  "is_word w \<longleftrightarrow> w \<noteq> [] \<and> (\<forall>c\<in>set w. \<not> isspace c)"

text \<open>
  What \<open>chunk_documents\<close> owes one document \<open>d = (filename, content)\<close>: \<open>b\<close> is
  the run of dictionaries made from it. Their \<open>chunk_id\<close>s are \<open>1, 2, .., N\<close>
  for the \<open>N\<close> chunks of \<open>chunk_text(content)\<close>, their texts are those chunks in
  the same order, and each carries \<open>total_chunks = N\<close> and the file name.
\<close>

definition document_block :: "TextChunker \<Rightarrow> string \<times> string \<Rightarrow> chunk_info list \<Rightarrow> bool" where
  "document_block self d b \<longleftrightarrow>
     (\<exists>chunks. chunk_text self (snd d) = Some chunks
        \<and> map chunk_id b = [1..<Suc (length chunks)]
        \<and> map chunk_text_key b = chunks
        \<and> (\<forall>c\<in>set b. total_chunks c = length chunks \<and> filename c = fst d))"

text \<open>
  \<open>ceil(a / b)\<close> for a positive \<open>b\<close>, on integers, and the step count the
  specification gives for \<open>W\<close> words: \<open>ceil((W - chunk_size) / (chunk_size - overlap)) + 1\<close>.
\<close>

definition ceil_div :: "int \<Rightarrow> int \<Rightarrow> int" where
  "ceil_div a b = - ((- a) div b)"

definition spec_step_count :: "TextChunker \<Rightarrow> nat \<Rightarrow> int" where
  "spec_step_count self W =
     ceil_div (int W - chunk_size self) (chunk_size self - overlap self) + 1"

section \<open>The vector store client (endee/endee_client.py)\<close>

text \<open>
  A raised Python exception, with the text \<open>str(e)\<close> gives. A call that may raise
  returns \<open>py_exception + 'a\<close>, \<open>Inl\<close> being the raise.
\<close>

datatype py_exception = PyException string

fun str_exc :: "py_exception \<Rightarrow> string" where
  "str_exc (PyException msg) = msg"

text \<open>
  The HTTP layer is the environment. \<open>response.json()\<close> either raises (\<open>NotJson\<close>)
  or gives a dictionary, whose \<open>"results"\<close> key may be absent and holds a list when
  present, a list, or some other value. The type \<open>'r\<close> is that of one result.
\<close>

datatype 'r json_body = JsonDict "'r list option" | JsonList "'r list" | JsonOther | NotJson

record 'r response =
  status_code :: int
  json :: "'r json_body"

record 'v payload =
  vector :: 'v
  payload_k :: int
  include_vectors :: bool

record EndeeClient =
  base_url :: string

text \<open>
  \<open>EndeeClient.search_vectors\<close>. \<open>post url payload timeout\<close> stands for
  \<open>requests.post(url, json=payload, timeout=60)\<close>. The whole body is inside
  \<open>try: ... except Exception as e: return []\<close>, so a transport error gives the empty
  list, as a status other than 200 and a body that is no JSON do; the method never
  raises.
\<close>

definition search_vectors ::
  "(string \<Rightarrow> 'v payload \<Rightarrow> int \<Rightarrow> py_exception + 'r response) \<Rightarrow> EndeeClient \<Rightarrow>
   string \<Rightarrow> 'v \<Rightarrow> int \<Rightarrow> bool \<Rightarrow> py_exception + 'r list" where
  "search_vectors post self collection_name query_vector top_k include_metadata =
     (let url = base_url self @ ''/api/v1/index/'' @ collection_name @ ''/search'';
          payload = \<lparr>vector = query_vector, payload_k = top_k, include_vectors = False\<rparr>
      in case post url payload 60 of
           Inl e \<Rightarrow> Inr []
         | Inr response \<Rightarrow>
             if status_code response \<noteq> 200 then Inr []
             else (case json response of
                     JsonDict results \<Rightarrow> Inr (case results of None \<Rightarrow> [] | Some rs \<Rightarrow> rs)
                   | JsonList data \<Rightarrow> Inr data
                   | JsonOther \<Rightarrow> Inr []
                   | NotJson \<Rightarrow> Inr []))"

section \<open>The query engine (retrieval/query_engine.py)\<close>

text \<open>
  Python floats are not modelled: the type \<open>'s\<close> of a similarity score is left
  open, and the two float operations of \<open>query\<close>, the default \<open>0.0\<close> and
  \<open>round(score, 3)\<close>, are parameters.
\<close>

record 's float_ops =
  float_zero :: 's
  round3 :: "'s \<Rightarrow> 's"

text \<open>One search result and its \<open>'metadata'\<close>; a key may be absent.\<close>

record metadata =
  meta_chunk_text :: "string option"
  meta_source_file :: "string option"
  meta_chunk_id :: "int option"

record 's search_result =
  result_metadata :: "metadata option"
  result_score :: "'s option"

record 's source_info =
  source_file :: string
  source_chunk_id :: int
  similarity_score :: 's
  source_chunk_text :: string

text \<open>
  The dictionary \<open>query\<close> returns. The keys \<open>'sources'\<close>, \<open>'error'\<close> and
  \<open>'num_sources'\<close> are present in some branches only.
\<close>

record 's QueryOutcome =
  query_key :: string
  answer :: string
  sources :: "'s source_info list option"
  error_key :: "string option"
  num_sources :: "nat option"

text \<open>
  The engine holds its three collaborators by the one method \<open>query\<close> calls on
  each: \<open>embedding_model.encode\<close>, \<open>endee_client.search_vectors\<close> and
  \<open>llm_client.generate_response\<close> (which returns \<open>None\<close> on failure). The element
  type \<open>'v\<close> of an embedding is left open.
\<close>

record ('v, 's) QueryEngine =
  embedding_model :: "string \<Rightarrow> py_exception + 'v"
  endee_client :: "string \<Rightarrow> 'v \<Rightarrow> int \<Rightarrow> bool \<Rightarrow> py_exception + 's search_result list"
  llm_client :: "string \<Rightarrow> string \<Rightarrow> 's source_info list \<Rightarrow> string option"
  collection_name :: string
  top_k :: int

text \<open>\<open>str(n)\<close> for a natural number: its decimal digits.\<close>

function str_nat :: "nat \<Rightarrow> string" where
  "str_nat n =
     (if n < 10 then [char_of (48 + n)]
      else str_nat (n div 10) @ [char_of (48 + n mod 10)])"
  by pat_completeness auto
termination
  by (relation "measure id") auto

declare str_nat.simps [simp del]

text \<open>The body of the loop over \<open>enumerate(search_results, start=1)\<close>.\<close>

definition result_chunk_text :: "'s search_result \<Rightarrow> string" where
  "result_chunk_text r =
     (case result_metadata r of
        None \<Rightarrow> []
      | Some m \<Rightarrow> (case meta_chunk_text m of None \<Rightarrow> [] | Some t \<Rightarrow> t))"

definition result_source_file :: "'s search_result \<Rightarrow> string" where
  "result_source_file r =
     (case result_metadata r of
        None \<Rightarrow> ''unknown''
      | Some m \<Rightarrow> (case meta_source_file m of None \<Rightarrow> ''unknown'' | Some f \<Rightarrow> f))"

definition context_part :: "nat \<times> 's search_result \<Rightarrow> string" where
  "context_part p =
     (case p of (idx, r) \<Rightarrow>
        ''[Source '' @ str_nat idx @ '': '' @ result_source_file r @ '']''
          @ [CHR 0x0A] @ result_chunk_text r)"

definition source_of :: "'s float_ops \<Rightarrow> 's search_result \<Rightarrow> 's source_info" where
  "source_of fl r =
     \<lparr>source_file = result_source_file r,
      source_chunk_id =
        (case result_metadata r of
           None \<Rightarrow> 0
         | Some m \<Rightarrow> (case meta_chunk_id m of None \<Rightarrow> 0 | Some i \<Rightarrow> i)),
      similarity_score =
        round3 fl (case result_score r of None \<Rightarrow> float_zero fl | Some x \<Rightarrow> x),
      source_chunk_text =
        (if length (result_chunk_text r) > 200
         then take 200 (result_chunk_text r) @ ''...''
         else result_chunk_text r)\<rparr>"

definition error_answer_search :: string where
  "error_answer_search =
     ''Error: Could not retrieve relevant information from the knowledge base.''"

definition no_information_answer :: string where
  "no_information_answer =
     ''I don't have enough information in the knowledge base to answer this question.''"

definition error_answer_generate :: string where
  "error_answer_generate = ''Error: Could not generate a response.''"

text \<open>
  \<open>QueryEngine.query\<close>. The call of \<open>encode\<close> stands outside every \<open>try\<close>, so
  its exception is the result of \<open>query\<close> (\<open>Inl\<close>); an exception of
  \<open>search_vectors\<close> is caught and becomes the error dictionary.
\<close>

definition query ::
  "'s float_ops \<Rightarrow> ('v, 's) QueryEngine \<Rightarrow> string \<Rightarrow> bool \<Rightarrow> py_exception + 's QueryOutcome" where
  "query fl self question verbose =
     (case embedding_model self question of
        Inl e \<Rightarrow> Inl e
      | Inr query_embedding \<Rightarrow>
          (case endee_client self (collection_name self) query_embedding (top_k self) True of
             Inl e \<Rightarrow>
               Inr \<lparr>query_key = question, answer = error_answer_search,
                    sources = Some [], error_key = Some (str_exc e), num_sources = None\<rparr>
           | Inr search_results \<Rightarrow>
               if search_results = [] then
                 Inr \<lparr>query_key = question, answer = no_information_answer,
                      sources = Some [], error_key = None, num_sources = None\<rparr>
               else
                 (let context_parts = map context_part (enumerate 1 search_results);
                      sources_info = map (source_of fl) search_results;
                      full_context = py_join [CHR 0x0A, CHR 0x0A] context_parts
                  in case llm_client self full_context question sources_info of
                       None \<Rightarrow>
                         Inr \<lparr>query_key = question, answer = error_answer_generate,
                              sources = Some (if verbose then sources_info else []),
                              error_key = None, num_sources = None\<rparr>
                     | Some ans \<Rightarrow>
                         if ans = [] then
                           Inr \<lparr>query_key = question, answer = error_answer_generate,
                                sources = Some (if verbose then sources_info else []),
                                error_key = None, num_sources = None\<rparr>
                         else
                           Inr \<lparr>query_key = question, answer = ans,
                                sources = (if verbose then Some sources_info else None),
                                error_key = None,
                                num_sources =
                                  (if verbose then Some (length sources_info) else None)\<rparr>)))"

text \<open>
  An answer of the error class is one of the two \<open>Error: ...\<close> strings of
  \<open>query\<close>.
\<close>

definition error_class_answer :: "string \<Rightarrow> bool" where
  "error_class_answer a \<longleftrightarrow> a = error_answer_search \<or> a = error_answer_generate"

section \<open>Properties of the chunker\<close>

subsection \<open>Whitespace, strip and split\<close>

lemma py_strip_Nil_iff: "py_strip s = [] \<longleftrightarrow> (\<forall>c\<in>set s. isspace c)"
proof
  assume "py_strip s = []"
  then have a: "\<forall>c\<in>set (dropWhile isspace s). isspace c"
    by (simp add: py_strip_def)
  show "\<forall>c\<in>set s. isspace c"
  proof (cases "dropWhile isspace s")
    case Nil
    then show ?thesis by simp
  next
    case (Cons c cs)
    then have "\<not> isspace c"
      using hd_dropWhile [of isspace s] by simp
    with a Cons show ?thesis by simp
  qed
next
  assume "\<forall>c\<in>set s. isspace c"
  then show "py_strip s = []"
    by (auto simp: py_strip_def dest: set_dropWhileD)
qed

lemma py_split_Nil_iff: "py_split s = [] \<longleftrightarrow> (\<forall>c\<in>set s. isspace c)"
proof (cases "dropWhile isspace s")
  case Nil
  then have "py_split s = []"
    by (subst py_split.simps) (simp only: list.case)
  with Nil show ?thesis by simp
next
  case (Cons c cs)
  then have "py_split s \<noteq> []"
    by (subst py_split.simps) (simp only: list.case list.distinct not_False_eq_True)
  moreover have "\<not> (\<forall>c\<in>set s. isspace c)"
    using Cons dropWhile_eq_Nil_conv [of isspace s] by simp
  ultimately show ?thesis by simp
qed

lemma py_split_Cons:
  "dropWhile isspace s = c # cs \<Longrightarrow>
   py_split s = takeWhile (\<lambda>x. \<not> isspace x) (c # cs)
                  # py_split (dropWhile (\<lambda>x. \<not> isspace x) (c # cs))"
  by (subst py_split.simps) (simp only: list.case)

lemma py_split_Nil: "dropWhile isspace s = [] \<Longrightarrow> py_split s = []"
  by (subst py_split.simps) (simp only: list.case)

lemma py_split_words: "\<forall>w\<in>set (py_split s). is_word w"
proof (induction s rule: py_split.induct)
  case (1 s)
  show ?case
  proof (cases "dropWhile isspace s")
    case Nil
    then show ?thesis by (simp only: py_split_Nil) simp
  next
    case (Cons c cs)
    have nc: "\<not> isspace c"
      using Cons hd_dropWhile [of isspace s] by simp
    have w: "is_word (takeWhile (\<lambda>x. \<not> isspace x) (c # cs))"
      using nc by (auto simp: is_word_def dest: set_takeWhileD)
    from w "1.IH" [OF Cons] show ?thesis
      by (simp only: py_split_Cons [OF Cons]) simp
  qed
qed

lemma py_split_word_sep:
  assumes "is_word w" and "isspace c"
  shows "py_split (w @ c # rest) = w # py_split rest"
proof -
  obtain a as where w: "w = a # as" and na: "\<not> isspace a"
    using assms(1) by (cases w) (auto simp: is_word_def)
  have all: "\<forall>x\<in>set w. \<not> isspace x"
    using assms(1) by (simp add: is_word_def)
  have d: "dropWhile isspace (w @ c # rest) = a # (as @ c # rest)"
    using w na by simp
  have t: "takeWhile (\<lambda>x. \<not> isspace x) (w @ c # rest) = w"
    using all assms(2) by simp
  have r: "dropWhile (\<lambda>x. \<not> isspace x) (w @ c # rest) = c # rest"
    using all assms(2) by simp
  have "py_split (c # rest) = py_split rest"
  proof (cases "dropWhile isspace rest")
    case Nil
    then show ?thesis using assms(2) by (simp add: py_split_Nil)
  next
    case (Cons x xs)
    then have "dropWhile isspace (c # rest) = x # xs"
      using assms(2) by simp
    then show ?thesis
      by (simp only: py_split_Cons [OF Cons] py_split_Cons)
  qed
  moreover have "py_split (w @ c # rest) = w # py_split (c # rest)"
    using py_split_Cons [OF d] t r w by simp
  ultimately show ?thesis by simp
qed

lemma py_split_word:
  assumes "is_word w"
  shows "py_split w = [w]"
proof -
  obtain a as where w: "w = a # as" and na: "\<not> isspace a"
    using assms(1) by (cases w) (auto simp: is_word_def)
  have all: "\<forall>x\<in>set w. \<not> isspace x"
    using assms(1) by (simp add: is_word_def)
  have d: "dropWhile isspace w = a # as"
    using w na by simp
  have t: "takeWhile (\<lambda>x. \<not> isspace x) w = w"
    using all by simp
  have r: "dropWhile (\<lambda>x. \<not> isspace x) w = []"
    using all by simp
  have "py_split [] = []"
    by (simp add: py_split_Nil)
  then show ?thesis
    using py_split_Cons [OF d] t r w by simp
qed

lemma py_split_join:
  "\<forall>w\<in>set ws. is_word w \<Longrightarrow> py_split (py_join '' '' ws) = ws"
proof (induction ws)
  case Nil
  show ?case by (simp add: py_split_Nil)
next
  case (Cons w ws)
  show ?case
  proof (cases ws)
    case Nil
    with Cons.prems show ?thesis by (simp add: py_split_word)
  next
    case (Cons v vs)
    have sp: "isspace CHR '' ''" by (simp add: isspace_def)
    have "py_split (w @ CHR '' '' # py_join '' '' ws) = w # py_split (py_join '' '' ws)"
      using Cons.prems sp by (intro py_split_word_sep) simp_all
    with Cons Cons.IH Cons.prems show ?thesis by simp
  qed
qed


subsection \<open>The loop\<close>

lemma py_slice_nat:
  "a \<le> length xs \<Longrightarrow> b \<le> length xs \<Longrightarrow>
   py_slice xs (int a) (int b) = take (b - a) (drop a xs)"
  by (simp add: py_slice_def Let_def nat_diff_distrib')

lemma chunk_loop_terminates:
  assumes "overlap self < chunk_size self"
  shows "\<exists>r. chunk_loop self words start chunks = Some r"
proof (induction "nat (int (length words) - start)" arbitrary: start chunks rule: less_induct)
  case less
  show ?case
  proof (cases "start < int (length words)")
    case False
    then show ?thesis by (subst chunk_loop.simps) simp
  next
    case True
    let ?s = "start + (chunk_size self - overlap self)"
    show ?thesis
    proof (cases "int (length words) \<le> ?s")
      case True
      with \<open>start < int (length words)\<close> show ?thesis
        by (subst chunk_loop.simps) (simp add: Let_def)
    next
      case False
      have "nat (int (length words) - ?s) < nat (int (length words) - start)"
        using assms True by linarith
      from less [OF this] obtain r where
        "chunk_loop self words ?s
           (chunks @ [py_join '' '' (py_slice words start
              (min (start + chunk_size self) (int (length words))))]) = Some r"
        by blast
      with True False show ?thesis
        by (subst chunk_loop.simps) (simp add: Let_def)
    qed
  qed
qed

lemma chunk_loop_Some_step:
  assumes "chunk_loop self words start chunks = Some y"
  shows "start < int (length words) \<longrightarrow> overlap self < chunk_size self"
proof (rule chunk_loop.raw_induct
    [where P = "\<lambda>self words start chunks y.
                  start < int (length words) \<longrightarrow> overlap self < chunk_size self",
     OF _ assms], goal_cases)
  case (1 loop self' words' start' chunks' y')
  show ?case
  proof (intro impI, rule ccontr)
    assume lt0: "start' < int (length words')"
       and n: "\<not> overlap self' < chunk_size self'"
    let ?s = "start' + (chunk_size self' - overlap self')"
    have lt: "?s < int (length words')"
      using n lt0 by linarith
    with "1"(2) lt0 obtain ch where "loop self' words' ?s ch = Some y'"
      by (auto simp: Let_def split: if_splits)
    from "1"(1) [OF this] lt n show False by simp
  qed
qed

lemma chunk_loop_diverges:
  "chunk_size self \<le> overlap self \<Longrightarrow> start < int (length words) \<Longrightarrow>
   chunk_loop self words start chunks = None"
  using chunk_loop_Some_step [of self words start chunks] by fastforce

lemma chunk_loop_closed:
  assumes c: "chunk_size self = int c"
      and d: "chunk_size self - overlap self = int d"
      and pos: "0 < d"
  shows "s < length words \<Longrightarrow>
     chunk_loop self words (int s) chunks =
       Some (chunks @ map (\<lambda>k. py_join '' '' (take c (drop (s + k * d) words)))
                          [0..<(length words - s + d - 1) div d])"
proof (induction "length words - s" arbitrary: s chunks rule: less_induct)
  case less
  let ?W = "length words"
  let ?f = "\<lambda>s k. py_join '' '' (take c (drop (s + k * d) words))"
  have sl: "py_slice words (int s) (min (int s + int c) (int ?W)) = take c (drop s words)"
  proof -
    have "min (int s + int c) (int ?W) = int (min (s + c) ?W)" by simp
    then have "py_slice words (int s) (min (int s + int c) (int ?W))
                 = take (min (s + c) ?W - s) (drop s words)"
      using less.prems by (simp add: py_slice_nat)
    also have "\<dots> = take c (drop s words)"
      using less.prems by (simp add: min_def)
    finally show ?thesis .
  qed
  show ?case
  proof (cases "?W \<le> s + d")
    case True
    then have "(?W - s + d - 1) div d = 1"
      using less.prems pos by (simp add: div_nat_eqI)
    moreover have "chunk_loop self words (int s) chunks = Some (chunks @ [?f s 0])"
      using True less.prems c d sl
      by (subst chunk_loop.simps) (simp add: Let_def)
    ultimately show ?thesis by simp
  next
    case False
    then have lt: "s + d < ?W" by simp
    have m: "?W - (s + d) < ?W - s"
      using lt pos by simp
    have n: "(?W - s + d - 1) div d = Suc ((?W - (s + d) + d - 1) div d)"
    proof -
      have e: "?W - s + d - 1 = (?W - (s + d) + d - 1) + d"
        using lt by simp
      have "(x + d) div d = Suc (x div d)" for x
        using pos by simp
      then show ?thesis by (simp only: e)
    qed
    have "chunk_loop self words (int s) chunks
            = chunk_loop self words (int (s + d)) (chunks @ [?f s 0])"
      using lt less.prems c d sl
      by (subst chunk_loop.simps) (simp add: Let_def)
    also have "\<dots> = Some ((chunks @ [?f s 0])
                 @ map (?f (s + d)) [0..<(?W - (s + d) + d - 1) div d])"
      by (rule less.hyps [OF m lt])
    also have "(chunks @ [?f s 0]) @ map (?f (s + d)) [0..<(?W - (s + d) + d - 1) div d]
                 = chunks @ map (?f s) [0..<(?W - s + d - 1) div d]"
      unfolding n
      by (simp add: upt_conv_Cons map_Suc_upt [symmetric] ac_simps del: upt_Suc)
    finally show ?thesis .
  qed
qed


subsection \<open>chunk_text\<close>

lemma chunk_text_nonblank:
  assumes "py_split text \<noteq> []"
  shows "chunk_text self text =
           (if int (length (py_split text)) \<le> chunk_size self then Some [text]
            else chunk_loop self (py_split text) 0 [])"
proof -
  have "\<not> (\<forall>c\<in>set text. isspace c)"
    using assms by (simp add: py_split_Nil_iff)
  then have "text \<noteq> []" and "py_strip text \<noteq> []"
    by (auto simp: py_strip_Nil_iff)
  then show ?thesis
    by (simp add: chunk_text_def Let_def)
qed

lemma chunk_text_blank:
  assumes "py_split text = []"
  shows "chunk_text self text = Some []"
proof -
  have "py_strip text = []"
    using assms by (simp add: py_split_Nil_iff py_strip_Nil_iff)
  then show ?thesis
    by (simp add: chunk_text_def)
qed

lemma chunk_text_returns:
  assumes "overlap self < chunk_size self"
  shows "\<exists>r. chunk_text self text = Some r"
proof (cases "py_split text = []")
  case True
  then show ?thesis by (simp add: chunk_text_blank)
next
  case False
  then show ?thesis
    using chunk_loop_terminates [OF assms, of "py_split text" 0 "[]"]
    by (simp add: chunk_text_nonblank)
qed

text \<open>
  C8. For every input text that is empty or consists only of whitespace,
  \<open>chunk_text\<close> returns the empty sequence and raises no error, whatever the
  chunk size and the overlap are.
\<close>

theorem chunk_text_whitespace_only:
  "\<forall>c\<in>set text. isspace c \<Longrightarrow> chunk_text self text = Some []"
  by (simp add: chunk_text_def py_strip_Nil_iff)

theorem chunk_text_whitespace_only_witness:
  "isspace CHR '' '' \<and> isspace (CHR 0x09) \<and> isspace (CHR 0x0A)
   \<and> chunk_text \<lparr>chunk_size = 10, overlap = 2\<rparr> [CHR '' '', CHR 0x09, CHR 0x0A] = Some []
   \<and> chunk_text \<lparr>chunk_size = 10, overlap = 2\<rparr> [] = Some []"
proof -
  have h: "\<forall>c\<in>set [CHR '' '', CHR 0x09, CHR 0x0A]. isspace c"
    by (simp add: isspace_def)
  have e: "\<forall>c\<in>set ([] :: string). isspace c"
    by simp
  show ?thesis
    using chunk_text_whitespace_only [OF h, of "\<lparr>chunk_size = 10, overlap = 2\<rparr>"]
      chunk_text_whitespace_only [OF e, of "\<lparr>chunk_size = 10, overlap = 2\<rparr>"]
    by (simp add: isspace_def)
qed

lemma py_split_replicate:
  "py_split (py_join '' '' (replicate n ''a'')) = replicate n ''a''"
  by (rule py_split_join) (simp add: is_word_def isspace_def)

lemma chunk_text_returns_iff:
  "(\<exists>r. chunk_text self text = Some r) \<longleftrightarrow>
     overlap self < chunk_size self \<or> py_split text = []
       \<or> int (length (py_split text)) \<le> chunk_size self"
proof (cases "py_split text = []")
  case True
  then show ?thesis by (simp add: chunk_text_blank)
next
  case False
  note nb = chunk_text_nonblank [OF False, of self]
  show ?thesis
  proof (cases "int (length (py_split text)) \<le> chunk_size self")
    case True
    then show ?thesis using nb by simp
  next
    case big: False
    show ?thesis
    proof (cases "overlap self < chunk_size self")
      case True
      then show ?thesis
        using chunk_text_returns [of self "text"] by simp
    next
      case False
      have "0 < int (length (py_split text))"
        using \<open>py_split text \<noteq> []\<close> by simp
      then have "chunk_loop self (py_split text) 0 [] = None"
        using False by (intro chunk_loop_diverges) simp_all
      then show ?thesis
        using nb big False \<open>py_split text \<noteq> []\<close> by simp
    qed
  qed
qed

text \<open>
  C10. \<open>chunk_text\<close> returns on a text exactly when the step
  \<open>chunk_size - overlap\<close> is positive or the loop is not entered (no word, or no
  more than \<open>chunk_size\<close> words): each pass moves the window start forward by
  the step, and a step of zero or less leaves it below the word count for ever.
  Hence it returns on every text if and only if \<open>chunk_size > overlap\<close>.
\<close>

theorem chunk_text_terminates_iff:
  "((\<exists>r. chunk_text self text = Some r) \<longleftrightarrow>
      overlap self < chunk_size self \<or> py_split text = []
        \<or> int (length (py_split text)) \<le> chunk_size self)
   \<and> ((\<forall>t. \<exists>r. chunk_text self t = Some r) \<longleftrightarrow> overlap self < chunk_size self)"
proof (intro conjI)
  show "(\<exists>r. chunk_text self text = Some r) \<longleftrightarrow>
      overlap self < chunk_size self \<or> py_split text = []
        \<or> int (length (py_split text)) \<le> chunk_size self"
    by (rule chunk_text_returns_iff)
next
  show "(\<forall>t. \<exists>r. chunk_text self t = Some r) \<longleftrightarrow> overlap self < chunk_size self"
  proof
    assume all: "\<forall>t. \<exists>r. chunk_text self t = Some r"
    let ?n = "Suc (nat (chunk_size self))"
    let ?t = "py_join '' '' (replicate ?n ''a'')"
    have "py_split ?t \<noteq> []" and "\<not> int (length (py_split ?t)) \<le> chunk_size self"
      by (simp_all only: py_split_replicate) simp_all
    moreover have "\<exists>r. chunk_text self ?t = Some r"
      using all by blast
    ultimately show "overlap self < chunk_size self"
      using chunk_text_returns_iff [of self ?t] by blast
  next
    assume "overlap self < chunk_size self"
    then show "\<forall>t. \<exists>r. chunk_text self t = Some r"
      by (blast intro: chunk_text_returns)
  qed
qed

theorem chunk_text_terminates_iff_witness:
  "(\<exists>r. chunk_text \<lparr>chunk_size = 2, overlap = 1\<rparr> ''a b c'' = Some r)
   \<and> chunk_text \<lparr>chunk_size = 2, overlap = 2\<rparr> ''a b c'' = None"
proof -
  have s: "py_split ''a b c'' = [''a'', ''b'', ''c'']"
    by code_simp
  show ?thesis
    using chunk_text_terminates_iff [of "\<lparr>chunk_size = 2, overlap = 1\<rparr>" "''a b c''"]
      chunk_text_terminates_iff [of "\<lparr>chunk_size = 2, overlap = 2\<rparr>" "''a b c''"]
    by (simp add: s)
qed

text \<open>
  C4 (as the code has it). The constructor checks nothing: for every pair, also
  one that violates \<open>chunk_size > overlap \<ge> 0\<close> and \<open>chunk_size \<ge> 1\<close>, it
  returns a chunker that holds the pair unchanged, and no \<open>ConfigurationError\<close>
  is raised.
\<close>

theorem TextChunker_init_accepts_all:
  "\<exists>self. TextChunker_init cs ov = Inr self \<and> chunk_size self = cs \<and> overlap self = ov"
  by (simp add: TextChunker_init_def)

theorem TextChunker_init_no_ConfigurationError:
  "\<not> ((5::int) > 5 \<and> (5::int) \<ge> 0 \<and> (5::int) \<ge> 1)
   \<and> TextChunker_init 5 5 \<noteq> Inl ConfigurationError"
  by (simp add: TextChunker_init_def)


subsection \<open>Windows and their number\<close>

lemma ceil_div_nat:
  assumes "0 < d"
  shows "ceil_div (int W) (int d) = int ((W + d - 1) div d)"
proof -
  let ?q = "(W + d - 1) div d" and ?r = "(W + d - 1) mod d"
  have "int (W + d - 1) = int (?q * d + ?r)"
    by simp
  moreover have "int (W + d - 1) = int W + int d - 1"
    using assms by (simp add: of_nat_diff)
  ultimately have "int W + int d - 1 = int ?q * int d + int ?r"
    by (simp only: of_nat_add of_nat_mult)
  then have e: "- int W = int d * (- int ?q) + (int d - 1 - int ?r)"
    by (simp add: algebra_simps)
  have "?r < d"
    using assms by simp
  then have "0 \<le> int d - 1 - int ?r" and "int d - 1 - int ?r < int d"
    by linarith+
  from int_div_pos_eq [OF e this] show ?thesis
    by (simp add: ceil_div_def)
qed

lemma ceil_div_ceiling:
  "ceil_div a b = \<lceil>real_of_int a / real_of_int b\<rceil>"
  by (simp add: ceil_div_def ceiling_divide_eq_div)

lemma py_split_window:
  "py_split (py_join '' '' (take c (drop s (py_split text))))
     = take c (drop s (py_split text))"
proof (rule py_split_join)
  show "\<forall>w\<in>set (take c (drop s (py_split text))). is_word w"
    using py_split_words [of "text"] by (auto dest!: in_set_takeD in_set_dropD)
qed

lemma chunk_text_windows:
  assumes c: "chunk_size self = int c"
      and d: "chunk_size self - overlap self = int d"
      and pos: "0 < d"
      and big: "c < length (py_split text)"
  shows "chunk_text self text =
           Some (map (\<lambda>i. py_join '' '' (take c (drop (i * d) (py_split text))))
                     [0..<(length (py_split text) + d - 1) div d])"
proof -
  have ne: "py_split text \<noteq> []"
    using big by auto
  have "chunk_text self text = chunk_loop self (py_split text) (int 0) []"
    using big c by (simp add: chunk_text_nonblank [OF ne])
  also have "\<dots> = Some ([] @ map (\<lambda>i. py_join '' '' (take c (drop (0 + i * d) (py_split text))))
                     [0..<(length (py_split text) - 0 + d - 1) div d])"
    using ne by (intro chunk_loop_closed [OF c d pos]) simp
  finally show ?thesis by simp
qed


text \<open>
  C2 (as the code has it). For a text of \<open>W\<close> words with \<open>W > chunk_size\<close>, under
  \<open>chunk_size > overlap \<ge> 0\<close>, chunk number \<open>i\<close> (from 0) is the space-joined
  window of the \<open>chunk_size\<close> words from word index \<open>i * (chunk_size - overlap)\<close>
  on, clipped at the end of the text; the windows start at 0 and run until the
  start reaches or exceeds \<open>W\<close>, so their number is \<open>ceil(W / (chunk_size - overlap))\<close>.
\<close>

theorem chunk_text_sliding_window:
  assumes "0 \<le> overlap self" and "overlap self < chunk_size self"
      and "chunk_size self < int (estimate_tokens text)"
  shows "let words = py_split text;
             W = estimate_tokens text;
             size = nat (chunk_size self);
             step = nat (chunk_size self - overlap self);
             n = nat (ceil_div (int W) (chunk_size self - overlap self))
         in chunk_text self text =
              Some (map (\<lambda>i. py_join '' '' (take size (drop (i * step) words))) [0..<n])
            \<and> (n - 1) * step < W \<and> W \<le> n * step"
proof -
  let ?c = "nat (chunk_size self)" and ?d = "nat (chunk_size self - overlap self)"
  let ?W = "length (py_split text)"
  have c: "chunk_size self = int ?c" and d: "chunk_size self - overlap self = int ?d"
    and pos: "0 < ?d"
    using assms by simp_all
  have big: "?c < ?W"
    using assms by (simp add: estimate_tokens_def)
  have n: "nat (ceil_div (int ?W) (chunk_size self - overlap self)) = (?W + ?d - 1) div ?d"
    using ceil_div_nat [OF pos, of ?W] d by simp
  let ?n = "(?W + ?d - 1) div ?d"
  have "?W + ?d - 1 = ?n * ?d + (?W + ?d - 1) mod ?d"
    by simp
  moreover have "(?W + ?d - 1) mod ?d < ?d"
    using pos by simp
  ultimately have up: "?W \<le> ?n * ?d"
    by linarith
  have le: "?n * ?d \<le> ?W + ?d - 1"
    by simp
  have "0 < ?n"
    using pos big by (simp add: div_greater_zero_iff)
  then obtain m where m: "?n = Suc m"
    by (cases ?n) auto
  have "m * ?d + ?d \<le> ?W + ?d - 1"
    using le by (simp only: m mult_Suc add.commute)
  then have "m * ?d < ?W"
    using pos big by linarith
  then have lo: "(?n - 1) * ?d < ?W"
    by (simp only: m diff_Suc_1)
  show ?thesis
    using chunk_text_windows [OF c d pos big] lo up
    by (simp add: Let_def estimate_tokens_def n)
qed

theorem chunk_text_sliding_window_witness:
  "chunk_text \<lparr>chunk_size = 2, overlap = 1\<rparr> ''a b c d e''
     = Some [''a b'', ''b c'', ''c d'', ''d e'', ''e'']"
proof -
  have s: "py_split ''a b c d e'' = [''a'', ''b'', ''c'', ''d'', ''e'']"
    by code_simp
  have u: "[0..<5] = [0, 1, 2, 3, 4]"
    by code_simp
  show ?thesis
    using chunk_text_sliding_window [of "\<lparr>chunk_size = 2, overlap = 1\<rparr>" "''a b c d e''"]
    by (simp add: Let_def estimate_tokens_def s ceil_div_def u)
qed

theorem chunk_text_step_count_counterexample:
  "(0::int) \<le> 2 \<and> (2::int) < 10
   \<and> estimate_tokens ''a b c d e f g h i j k l m n o p q r s t u v w x y'' = 25
   \<and> chunk_text \<lparr>chunk_size = 10, overlap = 2\<rparr>
        ''a b c d e f g h i j k l m n o p q r s t u v w x y''
       = Some [''a b c d e f g h i j'', ''i j k l m n o p q r'', ''q r s t u v w x y'', ''y'']
   \<and> spec_step_count \<lparr>chunk_size = 10, overlap = 2\<rparr> 25 = 3"
proof -
  have "estimate_tokens ''a b c d e f g h i j k l m n o p q r s t u v w x y'' = 25"
    by code_simp
  moreover have "chunk_text \<lparr>chunk_size = 10, overlap = 2\<rparr>
        ''a b c d e f g h i j k l m n o p q r s t u v w x y''
       = Some [''a b c d e f g h i j'', ''i j k l m n o p q r'', ''q r s t u v w x y'', ''y'']"
    by code_simp
  moreover have "spec_step_count \<lparr>chunk_size = 10, overlap = 2\<rparr> 25 = 3"
    by (simp add: spec_step_count_def ceil_div_def)
  ultimately show ?thesis by simp
qed

text \<open>
  C6 (as the code has it). For every text with at least one word and no more
  than \<open>chunk_size\<close> words, chunking returns exactly one chunk, which is the
  original text unchanged; \<open>chunk_documents\<close> makes of it the one dictionary
  with \<open>chunk_id = 1\<close> and \<open>total_chunks = 1\<close>.
\<close>

theorem chunk_text_single_chunk:
  assumes "0 < estimate_tokens text"
      and "int (estimate_tokens text) \<le> chunk_size self"
  shows "chunk_text self text = Some [text]
         \<and> chunk_documents self [(fname, text)] =
             Some [\<lparr>filename = fname, chunk_id = 1, chunk_text_key = text, total_chunks = 1\<rparr>]"
proof -
  have ne: "py_split text \<noteq> []"
    using assms(1) by (auto simp: estimate_tokens_def)
  have one: "chunk_text self text = Some [text]"
    using assms(2) by (simp add: chunk_text_nonblank [OF ne] estimate_tokens_def)
  then show ?thesis
    by (simp add: chunk_documents_def enumerate_eq_zip)
qed

theorem chunk_text_single_chunk_witness:
  "0 < estimate_tokens ''  hello   world '' \<and> int (estimate_tokens ''  hello   world '') \<le> 5
   \<and> chunk_text \<lparr>chunk_size = 5, overlap = 1\<rparr> ''  hello   world '' = Some [''  hello   world '']
   \<and> chunk_documents \<lparr>chunk_size = 5, overlap = 1\<rparr> [(''doc.txt'', ''  hello   world '')] =
       Some [\<lparr>filename = ''doc.txt'', chunk_id = 1, chunk_text_key = ''  hello   world '',
              total_chunks = 1\<rparr>]"
proof -
  have e: "estimate_tokens ''  hello   world '' = 2"
    by code_simp
  show ?thesis
    using chunk_text_single_chunk
      [of "''  hello   world ''" "\<lparr>chunk_size = 5, overlap = 1\<rparr>" "''doc.txt''"]
    by (simp add: e)
qed

theorem chunk_text_single_chunk_counterexample:
  "int (estimate_tokens []) \<le> chunk_size \<lparr>chunk_size = 5, overlap = 1\<rparr>
   \<and> chunk_text \<lparr>chunk_size = 5, overlap = 1\<rparr> [] = Some []"
proof -
  have "estimate_tokens [] = 0"
    by (simp add: estimate_tokens_def py_split_Nil)
  then show ?thesis
    by (simp add: chunk_text_def)
qed


text \<open>
  C5. For every 25-word text, chunking with \<open>chunk_size = 10\<close> and \<open>overlap = 2\<close>
  gives exactly 4 chunks. They are the word windows from the indices 0, 8, 16 and
  24 on, of 10, 10, 9 and 1 words, so none has more than 10 words. The last 2
  words of the first chunk are the first 2 of the second, and the last 2 of the
  second are the first 2 of the third; the last chunk shares only its one word
  with the third.
\<close>

theorem chunk_text_25_words:
  assumes "estimate_tokens text = 25"
  shows "\<exists>c1 c2 c3 c4.
           chunk_text \<lparr>chunk_size = 10, overlap = 2\<rparr> text = Some [c1, c2, c3, c4]
           \<and> py_split c1 = take 10 (py_split text)
           \<and> py_split c2 = take 10 (drop 8 (py_split text))
           \<and> py_split c3 = take 10 (drop 16 (py_split text))
           \<and> py_split c4 = take 10 (drop 24 (py_split text))
           \<and> estimate_tokens c1 = 10 \<and> estimate_tokens c2 = 10
           \<and> estimate_tokens c3 = 9 \<and> estimate_tokens c4 = 1
           \<and> drop 8 (py_split c1) = take 2 (py_split c2)
           \<and> drop 8 (py_split c2) = take 2 (py_split c3)
           \<and> drop 8 (py_split c3) = py_split c4"
proof -
  let ?ws = "py_split text"
  let ?f = "\<lambda>i. py_join '' '' (take 10 (drop (i * 8) ?ws))"
  have len: "length ?ws = 25"
    using assms by (simp add: estimate_tokens_def)
  have u: "[0..<4] = [0, 1, 2, Suc 2]"
    by (simp add: upt_rec)
  have "chunk_text \<lparr>chunk_size = 10, overlap = 2\<rparr> text
          = Some (map ?f [0..<(length ?ws + 8 - 1) div 8])"
    using len by (intro chunk_text_windows) simp_all
  then have ct: "chunk_text \<lparr>chunk_size = 10, overlap = 2\<rparr> text
          = Some [?f 0, ?f 1, ?f 2, ?f 3]"
    by (simp add: len u)
  have sp: "py_split (?f i) = take 10 (drop (i * 8) ?ws)" for i
    by (rule py_split_window)
  show ?thesis
    apply (rule exI [of _ "?f 0"], rule exI [of _ "?f 1"])
    apply (rule exI [of _ "?f 2"], rule exI [of _ "?f 3"])
    apply (simp only: ct sp estimate_tokens_def)
    apply (simp add: len drop_take min_def)
    done
qed

theorem chunk_text_25_words_witness:
  "estimate_tokens ''a b c d e f g h i j k l m n o p q r s t u v w x y'' = 25
   \<and> chunk_text \<lparr>chunk_size = 10, overlap = 2\<rparr>
        ''a b c d e f g h i j k l m n o p q r s t u v w x y''
       = Some [''a b c d e f g h i j'', ''i j k l m n o p q r'', ''q r s t u v w x y'', ''y'']"
proof -
  have h: "estimate_tokens ''a b c d e f g h i j k l m n o p q r s t u v w x y'' = 25"
    by code_simp
  have v: "chunk_text \<lparr>chunk_size = 10, overlap = 2\<rparr>
        ''a b c d e f g h i j k l m n o p q r s t u v w x y''
       = Some [''a b c d e f g h i j'', ''i j k l m n o p q r'', ''q r s t u v w x y'', ''y'']"
    by code_simp
  show ?thesis
    using chunk_text_25_words [OF h] h v by simp
qed

subsection \<open>chunk_documents\<close>

lemma append_chunks_eq:
  "append_chunks fname n ps acc =
     acc @ map (\<lambda>p. \<lparr>filename = fname, chunk_id = fst p, chunk_text_key = snd p,
                      total_chunks = n\<rparr>) ps"
  by (induction ps arbitrary: acc) auto

lemma document_block_enumerate:
  assumes "chunk_text self content = Some chunks"
  shows "document_block self (fname, content)
           (map (\<lambda>p. \<lparr>filename = fname, chunk_id = fst p, chunk_text_key = snd p,
                       total_chunks = length chunks\<rparr>) (enumerate 1 chunks))"
proof -
  have "map (\<lambda>p. fst p) (enumerate 1 chunks) = [1..<Suc (length chunks)]"
    using map_fst_enumerate [of 1 chunks] by simp
  moreover have "map (\<lambda>p. snd p) (enumerate 1 chunks) = chunks"
    using map_snd_enumerate [of 1 chunks] by simp
  ultimately show ?thesis
    using assms by (simp add: document_block_def comp_def)
qed

lemma chunk_documents_loop_blocks:
  assumes "\<forall>d\<in>set docs. chunk_text self (snd d) \<noteq> None"
  shows "\<exists>blocks. chunk_documents_loop self docs acc = Some (acc @ concat blocks)
           \<and> list_all2 (document_block self) docs blocks"
  using assms
proof (induction docs arbitrary: acc)
  case Nil
  then show ?case by simp
next
  case (Cons d docs)
  obtain fname content where d: "d = (fname, content)"
    by (cases d)
  obtain chunks where ch: "chunk_text self content = Some chunks"
    using Cons.prems d by auto
  let ?b = "map (\<lambda>p. \<lparr>filename = fname, chunk_id = fst p, chunk_text_key = snd p,
                       total_chunks = length chunks\<rparr>) (enumerate 1 chunks)"
  from Cons.IH [of "acc @ ?b"] Cons.prems obtain blocks where
    bl: "chunk_documents_loop self docs (acc @ ?b) = Some ((acc @ ?b) @ concat blocks)"
    and all: "list_all2 (document_block self) docs blocks"
    by auto
  have "chunk_documents_loop self (d # docs) acc = Some (acc @ concat (?b # blocks))"
    using bl by (simp add: d ch append_chunks_eq)
  moreover have "list_all2 (document_block self) (d # docs) (?b # blocks)"
    using all document_block_enumerate [OF ch, of fname] by (simp add: d)
  ultimately show ?case by blast
qed

text \<open>
  C9. Whenever \<open>chunk_text\<close> returns on every document of the list (as it does
  for every list when \<open>chunk_size > overlap\<close>), \<open>chunk_documents\<close> returns
  the concatenation, in document order, of one block per document. The block of
  a document with \<open>N\<close> chunks has the \<open>chunk_id\<close>s \<open>1, 2, .., N\<close> without a gap,
  the chunk texts in the order \<open>chunk_text\<close> produced them, and
  \<open>total_chunks = N\<close> and the document's name on every entry.
\<close>

theorem chunk_documents_sequence:
  assumes "\<forall>d\<in>set documents. chunk_text self (snd d) \<noteq> None"
  shows "\<exists>blocks. chunk_documents self documents = Some (concat blocks)
           \<and> length blocks = length documents
           \<and> (\<forall>j<length documents. document_block self (documents ! j) (blocks ! j))"
proof -
  from chunk_documents_loop_blocks [OF assms, of "[]"] obtain blocks where
    "chunk_documents_loop self documents [] = Some ([] @ concat blocks)"
    and "list_all2 (document_block self) documents blocks"
    by blast
  then show ?thesis
    by (auto simp: chunk_documents_def list_all2_conv_all_nth)
qed

theorem chunk_documents_sequence_witness:
  "chunk_documents \<lparr>chunk_size = 2, overlap = 1\<rparr>
     [(''f1'', ''a b c''), (''f2'', ''  ''), (''f3'', ''x y'')] =
   Some [\<lparr>filename = ''f1'', chunk_id = 1, chunk_text_key = ''a b'', total_chunks = 3\<rparr>,
         \<lparr>filename = ''f1'', chunk_id = 2, chunk_text_key = ''b c'', total_chunks = 3\<rparr>,
         \<lparr>filename = ''f1'', chunk_id = 3, chunk_text_key = ''c'', total_chunks = 3\<rparr>,
         \<lparr>filename = ''f3'', chunk_id = 1, chunk_text_key = ''x y'', total_chunks = 1\<rparr>]"
proof -
  let ?self = "\<lparr>chunk_size = 2, overlap = 1\<rparr>"
  have a: "chunk_text ?self ''a b c'' = Some [''a b'', ''b c'', ''c'']"
    by code_simp
  have b: "chunk_text ?self ''  '' = Some []"
    by code_simp
  have c: "chunk_text ?self ''x y'' = Some [''x y'']"
    by code_simp
  have h: "\<forall>d\<in>set [(''f1'', ''a b c''), (''f2'', ''  ''), (''f3'', ''x y'')].
             chunk_text ?self (snd d) \<noteq> None"
    by (simp add: a b c)
  have v: "chunk_documents ?self [(''f1'', ''a b c''), (''f2'', ''  ''), (''f3'', ''x y'')] =
   Some [\<lparr>filename = ''f1'', chunk_id = 1, chunk_text_key = ''a b'', total_chunks = 3\<rparr>,
         \<lparr>filename = ''f1'', chunk_id = 2, chunk_text_key = ''b c'', total_chunks = 3\<rparr>,
         \<lparr>filename = ''f1'', chunk_id = 3, chunk_text_key = ''c'', total_chunks = 3\<rparr>,
         \<lparr>filename = ''f3'', chunk_id = 1, chunk_text_key = ''x y'', total_chunks = 1\<rparr>]"
    by (simp add: chunk_documents_def a b c enumerate_eq_zip upt_rec)
  show ?thesis
    using chunk_documents_sequence [OF h] v by simp
qed


section \<open>Properties of the query engine\<close>

lemma search_vectors_never_raises:
  "\<exists>results. search_vectors post self name v n m = Inr results"
  by (simp add: search_vectors_def Let_def split: sum.splits json_body.splits option.splits)

lemma search_vectors_transport_error:
  assumes "\<And>url payload timeout. post url payload timeout = Inl e"
  shows "search_vectors post self name v n m = Inr []"
  by (simp add: search_vectors_def Let_def assms)

lemma query_embedding_error_propagates:
  "embedding_model self question = Inl e \<Longrightarrow> query fl self question verbose = Inl e"
  by (simp add: query_def)

lemma query_search_raises:
  assumes "embedding_model self question = Inr v"
      and "endee_client self (collection_name self) v (top_k self) True = Inl e"
  shows "query fl self question verbose =
           Inr \<lparr>query_key = question, answer = error_answer_search, sources = Some [],
                error_key = Some (str_exc e), num_sources = None\<rparr>"
  using assms by (simp add: query_def)

lemma query_always_returns_after_embedding:
  "embedding_model self question = Inr v \<Longrightarrow> \<exists>outcome. query fl self question verbose = Inr outcome"
  by (simp add: query_def Let_def split: sum.splits option.splits)

lemma no_information_not_error_class: "\<not> error_class_answer no_information_answer"
  by (simp add: error_class_answer_def no_information_answer_def error_answer_search_def
      error_answer_generate_def)

text \<open>
  C7. If the question is embedded and the search returns no result, \<open>query\<close>
  returns the insufficient-information answer with an empty \<open>sources\<close> list and
  without an \<open>error\<close> key; that answer is none of the error answers.
\<close>

theorem query_no_results:
  assumes "embedding_model self question = Inr v"
      and "endee_client self (collection_name self) v (top_k self) True = Inr []"
  shows "query fl self question verbose =
           Inr \<lparr>query_key = question, answer = no_information_answer, sources = Some [],
                error_key = None, num_sources = None\<rparr>
         \<and> \<not> error_class_answer no_information_answer"
  using assms by (simp add: query_def no_information_not_error_class)

theorem query_no_results_witness:
  "query \<lparr>float_zero = 0 :: int, round3 = id\<rparr>
     \<lparr>embedding_model = (\<lambda>q. Inr [1 :: int, 2, 3]),
      endee_client =
        search_vectors (\<lambda>url payload timeout. Inr \<lparr>status_code = 200, json = JsonList []\<rparr>)
          \<lparr>base_url = ''http://localhost:8080''\<rparr>,
      llm_client = (\<lambda>context q srcs. None),
      collection_name = ''knowledge_base'', top_k = 3\<rparr>
     ''What is X?'' True =
   Inr \<lparr>query_key = ''What is X?'',
        answer = ''I don't have enough information in the knowledge base to answer this question.'',
        sources = Some [], error_key = None, num_sources = None\<rparr>"
  using query_no_results
    [of "\<lparr>embedding_model = (\<lambda>q. Inr [1 :: int, 2, 3]),
      endee_client =
        search_vectors (\<lambda>url payload timeout. Inr \<lparr>status_code = 200, json = JsonList []\<rparr>)
          \<lparr>base_url = ''http://localhost:8080''\<rparr>,
      llm_client = (\<lambda>context q srcs. None),
      collection_name = ''knowledge_base'', top_k = 3\<rparr>"
     "''What is X?''" "[1, 2, 3]" "\<lparr>float_zero = 0 :: int, round3 = id\<rparr>" True]
  by (simp add: search_vectors_def no_information_answer_def)

lemma query_store_failure_gives_no_information:
  assumes "embedding_model self question = Inr v"
      and "\<And>url payload timeout. post url payload timeout = Inl e"
  shows "query fl (self\<lparr>endee_client := search_vectors post client\<rparr>) question verbose =
           Inr \<lparr>query_key = question, answer = no_information_answer, sources = Some [],
                error_key = None, num_sources = None\<rparr>"
  using assms(1) by (simp add: query_def search_vectors_transport_error [of post e, OF assms(2)])

text \<open>
  C1. The store cannot be reached: \<open>requests.post\<close> raises a connection error.
  \<open>search_vectors\<close> catches it and returns the empty list, so \<open>query\<close> never
  enters its own \<open>except\<close> branch: the result is the insufficient-information
  answer without an \<open>error\<close> key, not the error answer.
\<close>

theorem query_transport_error_not_reported:
  "query \<lparr>float_zero = 0 :: int, round3 = id\<rparr>
     \<lparr>embedding_model = (\<lambda>q. Inr [1 :: int, 2, 3]),
      endee_client =
        search_vectors (\<lambda>url payload timeout. Inl (PyException ''Connection refused''))
          \<lparr>base_url = ''http://localhost:8080''\<rparr>,
      llm_client = (\<lambda>context q srcs. None),
      collection_name = ''knowledge_base'', top_k = 3\<rparr>
     ''What is X?'' True =
   Inr \<lparr>query_key = ''What is X?'', answer = no_information_answer,
        sources = Some [], error_key = None, num_sources = None\<rparr>"
  by (simp add: query_def search_vectors_def)

text \<open>
  C3. The embedder fails: \<open>encode\<close> raises. The call stands outside every
  \<open>try\<close>, so \<open>query\<close> returns no dictionary: the exception leaves it.
\<close>

theorem query_embedding_error_unhandled:
  "query \<lparr>float_zero = 0 :: int, round3 = id\<rparr>
     \<lparr>embedding_model =
        (\<lambda>q. Inl (PyException ''model could not be loaded'') :: py_exception + int list),
      endee_client =
        search_vectors (\<lambda>url payload timeout. Inr \<lparr>status_code = 200, json = JsonList []\<rparr>)
          \<lparr>base_url = ''http://localhost:8080''\<rparr>,
      llm_client = (\<lambda>context q srcs. None),
      collection_name = ''knowledge_base'', top_k = 3\<rparr>
     ''What is X?'' True =
   (Inl (PyException ''model could not be loaded'')
      :: py_exception + int QueryOutcome)"
  by (simp add: query_def)


end
